theory Spec2Isabelle
  imports Complex_Main "HOL-Library.Sublist"
begin

section \<open>Strings of the program\<close>

text \<open>
  A character of a Python \<open>str\<close> is modelled as a \<open>pchar\<close>: \<open>Code c\<close> is the code point of
  \<open>c\<close>, below 256, and \<open>Surrogate b\<close> is the lone surrogate that Python makes of a byte
  \<open>b\<close> it cannot decode on the command line (error handler \<open>surrogateescape\<close>). A \<open>str\<close>
  is a list of them, and \<open>str ''...''\<close> is the \<open>str\<close> of a literal. The functions of this
  section are the methods of \<open>str\<close> and the functions of the standard library that
  \<open>opensanctions_batch_search.py\<close> calls, on such strings.
\<close>

datatype pchar = Code char | Surrogate char

type_synonym pstr = "pchar list"

abbreviation str :: "string \<Rightarrow> pstr" where
  "str s \<equiv> map Code s"

text \<open>
  The exceptions of a run: \<open>OSError path\<close> for a file that cannot be opened or read,
  \<open>Raised t\<close> for an exception of a request, with its text \<open>str(exc)\<close>, and the
  exceptions of the interpreter named as they are.
\<close>

datatype exn = OSError pstr | UnicodeEncodeError | OverflowError | ValueError | Raised pstr

fun is_surrogate :: "pchar \<Rightarrow> bool" where
  "is_surrogate (Code c) = False"
| "is_surrogate (Surrogate b) = True"

definition has_surrogate :: "pstr \<Rightarrow> bool" where
  \<comment> \<open>the strings that \<open>s.encode("utf-8")\<close> refuses\<close>
  "has_surrogate s = list_ex is_surrogate s"

fun is_space :: "pchar \<Rightarrow> bool" where
  \<comment> \<open>\<open>str.isspace\<close> on one character\<close>
  "is_space (Code c) =
     (let n = (of_char c :: nat)
      in (9 \<le> n \<and> n \<le> 13) \<or> (28 \<le> n \<and> n \<le> 32) \<or> n = 133 \<or> n = 160)"
| "is_space (Surrogate b) = False"

definition py_strip :: "pstr \<Rightarrow> pstr" where
  \<comment> \<open>\<open>s.strip()\<close>\<close>
  "py_strip s = rev (dropWhile is_space (rev (dropWhile is_space s)))"

definition is_upper :: "char \<Rightarrow> bool" where
  "is_upper c =
     (let n = (of_char c :: nat)
      in (65 \<le> n \<and> n \<le> 90) \<or> (192 \<le> n \<and> n \<le> 222 \<and> n \<noteq> 215))"

fun lower_char :: "pchar \<Rightarrow> pchar" where
  \<comment> \<open>an upper-case letter below 256 and its lower-case letter differ in bit 5 only\<close>
  "lower_char (Code c) =
     (if is_upper c
      then (case c of Char b0 b1 b2 b3 b4 b5 b6 b7 \<Rightarrow> Code (Char b0 b1 b2 b3 b4 True b6 b7))
      else Code c)"
| "lower_char (Surrogate b) = Surrogate b"

definition py_lower :: "pstr \<Rightarrow> pstr" where
  \<comment> \<open>\<open>s.lower()\<close>\<close>
  "py_lower s = map lower_char s"

fun starts_with :: "pstr \<Rightarrow> pstr \<Rightarrow> bool" where
  \<comment> \<open>\<open>s.startswith(l)\<close>, the literal first\<close>
  "starts_with [] s = True"
| "starts_with (c # l) [] = False"
| "starts_with (c # l) (d # s) = (c = d \<and> starts_with l s)"

fun py_in :: "pstr \<Rightarrow> pstr \<Rightarrow> bool" where
  \<comment> \<open>\<open>sub in s\<close>\<close>
  "py_in sub [] = (sub = [])"
| "py_in sub (c # s) = (starts_with sub (c # s) \<or> py_in sub s)"

fun py_join :: "pstr \<Rightarrow> pstr list \<Rightarrow> pstr" where
  \<comment> \<open>\<open>sep.join(parts)\<close>\<close>
  "py_join sep [] = []"
| "py_join sep [p] = p"
| "py_join sep (p # q # ps) = p @ sep @ py_join sep (q # ps)"

definition digit_char :: "nat \<Rightarrow> pchar" where
  "digit_char n = Code (''0123456789ABCDEF'' ! n)"

fun str_nat :: "nat \<Rightarrow> pstr" where
  "str_nat n = (if n < 10 then [digit_char n] else str_nat (n div 10) @ [digit_char (n mod 10)])"

declare str_nat.simps [simp del]

definition str_int :: "int \<Rightarrow> pstr" where
  \<comment> \<open>\<open>str(i)\<close> of an integer\<close>
  "str_int i = (if i < 0 then Code CHR ''-'' # str_nat (nat (- i)) else str_nat (nat i))"

subsection \<open>\<open>urllib.parse.quote_plus\<close>\<close>

definition always_safe :: "char \<Rightarrow> bool" where
  "always_safe c =
     (let n = (of_char c :: nat)
      in (48 \<le> n \<and> n \<le> 57) \<or> (65 \<le> n \<and> n \<le> 90) \<or> (97 \<le> n \<and> n \<le> 122)
         \<or> c \<in> set ''_.-~'')"

definition percent_byte :: "nat \<Rightarrow> pstr" where
  "percent_byte b = [Code CHR ''%'', digit_char (b div 16), digit_char (b mod 16)]"

definition quote_char :: "char \<Rightarrow> pstr" where
  \<comment> \<open>one code point: kept, turned into \<open>+\<close>, or its UTF-8 bytes percent-encoded\<close>
  "quote_char c =
     (let n = (of_char c :: nat)
      in if always_safe c then [Code c]
         else if c = CHR '' '' then str ''+''
         else if n < 128 then percent_byte n
         else percent_byte (192 + n div 64) @ percent_byte (128 + n mod 64))"

fun quote_plus :: "pstr \<Rightarrow> exn + pstr" where
  \<comment> \<open>the string is encoded as UTF-8 first, which raises on a lone surrogate\<close>
  "quote_plus [] = Inr []"
| "quote_plus (Surrogate b # s) = Inl UnicodeEncodeError"
| "quote_plus (Code c # s) =
     (case quote_plus s of Inl x \<Rightarrow> Inl x | Inr q \<Rightarrow> Inr (quote_char c @ q))"

subsection \<open>Floating-point options and \<open>time.sleep\<close>\<close>

text \<open>
  A \<open>float\<close> that \<open>argparse\<close> makes of an option is a finite number, here a rational, an
  infinity or not-a-number. \<open>time.sleep\<close> raises on a delay that is no number or is
  beyond the range of the platform's clock; where that range ends is the platform's, so
  the outcome of a finite delay is the parameter \<open>finite_sleep\<close>.
\<close>

datatype pyfloat = Finite rat | PosInf | NegInf | NaN

fun float_gt_zero :: "pyfloat \<Rightarrow> bool" where
  \<comment> \<open>\<open>x > 0\<close>\<close>
  "float_gt_zero (Finite r) = (0 < r)"
| "float_gt_zero PosInf = True"
| "float_gt_zero NegInf = False"
| "float_gt_zero NaN = False"

fun time_sleep :: "(rat \<Rightarrow> exn option) \<Rightarrow> pyfloat \<Rightarrow> exn option" where
  \<comment> \<open>\<open>None\<close> when the call returns after the delay, \<open>Some\<close> the exception it raises\<close>
  "time_sleep finite_sleep (Finite r) = finite_sleep r"
| "time_sleep finite_sleep PosInf = Some OverflowError"
| "time_sleep finite_sleep NegInf = Some OverflowError"
| "time_sleep finite_sleep NaN = Some ValueError"

section \<open>Regular expressions\<close>

text \<open>
  The two patterns of the program are sequences of literals and of repetitions of one
  character class. \<open>match_atoms\<close> is the backtracking matcher of \<open>re\<close> on such a sequence,
  anchored at the start of its input: a greedy repetition tries the longest run first, a
  lazy one (\<open>.*?\<close>) the shortest, and the first alternative under which the rest of the
  pattern matches wins. It returns the text taken by each atom and the unread input.
\<close>

datatype atom =
    Lit pstr
  | Greedy "pchar \<Rightarrow> bool" nat
  | Lazy "pchar \<Rightarrow> bool"

fun first_some :: "('a \<Rightarrow> 'b option) \<Rightarrow> 'a list \<Rightarrow> 'b option" where
  "first_some f [] = None"
| "first_some f (x # xs) = (case f x of Some y \<Rightarrow> Some y | None \<Rightarrow> first_some f xs)"

fun match_atoms :: "atom list \<Rightarrow> pstr \<Rightarrow> (pstr list \<times> pstr) option" where
  "match_atoms [] s = Some ([], s)"
| "match_atoms (Lit l # as) s =
     (if starts_with l s
      then map_option (\<lambda>(segs, r). (l # segs, r)) (match_atoms as (drop (length l) s))
      else None)"
| "match_atoms (Greedy p mn # as) s =
     first_some
       (\<lambda>n. map_option (\<lambda>(segs, r). (take n s # segs, r)) (match_atoms as (drop n s)))
       (rev [mn ..< Suc (length (takeWhile p s))])"
| "match_atoms (Lazy p # as) s =
     first_some
       (\<lambda>n. map_option (\<lambda>(segs, r). (take n s # segs, r)) (match_atoms as (drop n s)))
       [0 ..< Suc (length (takeWhile p s))]"

text \<open>
  \<open>pattern.findall\<close> and \<open>re.sub(pattern, "", s)\<close> scan from left to right and go on
  behind each match. Both patterns of the program start with a literal, so a match is
  never empty; an empty match is passed over like a failed one.
\<close>

function findall :: "atom list \<Rightarrow> pstr \<Rightarrow> pstr list list" where
  "findall pat s =
     (case match_atoms pat s of
        Some (segs, r) \<Rightarrow>
          if length r < length s then segs # findall pat r
          else (case s of [] \<Rightarrow> [] | c # cs \<Rightarrow> findall pat cs)
      | None \<Rightarrow> (case s of [] \<Rightarrow> [] | c # cs \<Rightarrow> findall pat cs))"
  by pat_completeness auto
termination
  by (relation "measure (\<lambda>(pat, s). length s)") auto

declare findall.simps [simp del]

function sub_empty :: "atom list \<Rightarrow> pstr \<Rightarrow> pstr" where
  "sub_empty pat s =
     (case match_atoms pat s of
        Some (segs, r) \<Rightarrow>
          if length r < length s then sub_empty pat r
          else (case s of [] \<Rightarrow> [] | c # cs \<Rightarrow> c # sub_empty pat cs)
      | None \<Rightarrow> (case s of [] \<Rightarrow> [] | c # cs \<Rightarrow> c # sub_empty pat cs))"
  by pat_completeness auto
termination
  by (relation "measure (\<lambda>(pat, s). length s)") auto

declare sub_empty.simps [simp del]

section \<open>The entity extractor\<close>

definition entity_pattern :: "atom list" where
  \<comment> \<open>\<open><a[^>]+href="(/entities/[^"]+)"[^>]*>(.*?)</a>\<close> with \<open>re.DOTALL\<close>\<close>
  "entity_pattern =
     [Lit (str ''<a''), Greedy (\<lambda>c. c \<noteq> Code CHR ''>'') 1, Lit (str ''href=\"''),
      Lit (str ''/entities/''), Greedy (\<lambda>c. c \<noteq> Code CHR 0x22) 1,
      Lit (str ''\"''), Greedy (\<lambda>c. c \<noteq> Code CHR ''>'') 0, Lit (str ''>''),
      Lazy (\<lambda>c. True),
      Lit (str ''</a>'')]"

definition entity_groups :: "pstr list \<Rightarrow> pstr \<times> pstr" where
  \<comment> \<open>the two groups of the pattern: atoms 3 and 4, and atom 8\<close>
  "entity_groups segs = (segs ! 3 @ segs ! 4, segs ! 8)"

definition findall_entities :: "pstr \<Rightarrow> (pstr \<times> pstr) list" where
  "findall_entities html_text = map entity_groups (findall entity_pattern html_text)"

definition tag_pattern :: "atom list" where
  \<comment> \<open>\<open><[^>]+>\<close>\<close>
  "tag_pattern = [Lit (str ''<''), Greedy (\<lambda>c. c \<noteq> Code CHR ''>'') 1, Lit (str ''>'')]"

definition html_unescape :: "(pstr \<Rightarrow> pstr) \<Rightarrow> pstr \<Rightarrow> pstr" where
  \<comment> \<open>\<open>html.unescape\<close>: a string without \<open>&\<close> is returned as it is; in any other, the
      character references are replaced, which is the parameter \<open>charref\<close> (the table of
      references is the standard library's)\<close>
  "html_unescape charref s = (if Code CHR ''&'' \<in> set s then charref s else s)"

definition entity_of :: "(pstr \<Rightarrow> pstr) \<Rightarrow> pstr \<times> pstr \<Rightarrow> pstr \<times> pstr" where
  \<comment> \<open>the pair \<open>(title, abs_url)\<close> the loop computes from one match\<close>
  "entity_of charref m =
     (case m of (rel_url, raw_title) \<Rightarrow>
        (py_strip (html_unescape charref (sub_empty tag_pattern raw_title)),
         str ''https://www.opensanctions.org'' @ rel_url))"

definition entity_key :: "pstr \<times> pstr \<Rightarrow> pstr \<times> pstr" where
  \<comment> \<open>\<open>key = (abs_url, title.lower())\<close>\<close>
  "entity_key e = (case e of (title, abs_url) \<Rightarrow> (abs_url, py_lower title))"

fun extract_loop ::
  "(pstr \<Rightarrow> pstr) \<Rightarrow> int \<Rightarrow> (pstr \<times> pstr) list \<Rightarrow> (pstr \<times> pstr) set \<Rightarrow>
   (pstr \<times> pstr) list \<Rightarrow> (pstr \<times> pstr) list" where
  "extract_loop charref max_links [] seen entities = entities"
| "extract_loop charref max_links (m # rest) seen entities =
     (let e = entity_of charref m; key = entity_key e
      in if key \<in> seen then extract_loop charref max_links rest seen entities
         else let entities' = entities @ [e]
              in if int (length entities') \<ge> max_links then entities'
                 else extract_loop charref max_links rest (insert key seen) entities')"

definition extract_entities :: "(pstr \<Rightarrow> pstr) \<Rightarrow> pstr \<Rightarrow> int \<Rightarrow> (pstr \<times> pstr) list" where
  "extract_entities charref html_text max_links =
     extract_loop charref max_links (findall_entities html_text) {} []"

section \<open>Name sources\<close>

text \<open>
  \<open>args\<close> is the namespace \<open>parse_args\<close> returns. The option \<open>--timeout\<close> is left out: it
  is handed to the HTTP request, whose outcome is part of the environment below. The
  field \<open>output_path\<close> is \<open>args.output\<close>.
\<close>

record args =
  name :: "pstr list"
  input_txt :: "pstr option"
  input_csv :: "pstr option"
  name_column :: pstr
  first_name_column :: pstr
  last_name_column :: pstr
  output_path :: pstr
  max_links :: int
  sleep :: pyfloat
  no_dedupe :: bool
  limit :: int

text \<open>
  The environment of a run. \<open>txt_lines e path\<close> is the list of lines that iterating over
  the text file at \<open>path\<close> yields, and \<open>csv_records e path\<close> the list of records that
  \<open>csv.reader\<close> yields for the file at \<open>path\<close>, the header first, each a list of cells
  and an empty line the empty list; both are \<open>None\<close> when the file cannot be opened or
  read. \<open>writable e path\<close> tells whether \<open>open(path, "w")\<close> succeeds. \<open>http_get e i url\<close> is
  the outcome of the \<open>i\<close>-th request of the run: \<open>Inr\<close> the decoded body, or \<open>Inl\<close> the text
  \<open>str(exc)\<close> of the exception raised. \<open>charref e\<close> is the replacement of character
  references of \<open>html.unescape\<close>, \<open>finite_sleep e\<close> the outcome of \<open>time.sleep\<close> on a
  finite delay, and \<open>stdout_strict e\<close> tells whether the standard output refuses a lone
  surrogate (its error handler is \<open>strict\<close>, as it is outside the C locale).
\<close>

record env =
  txt_lines :: "pstr \<rightharpoonup> pstr list"
  csv_records :: "pstr \<rightharpoonup> pstr list list"
  writable :: "pstr \<Rightarrow> bool"
  http_get :: "nat \<Rightarrow> pstr \<Rightarrow> pstr + pstr"
  charref :: "pstr \<Rightarrow> pstr"
  finite_sleep :: "rat \<Rightarrow> exn option"
  stdout_strict :: bool

definition load_names_from_txt :: "env \<Rightarrow> pstr \<Rightarrow> exn + pstr list" where
  "load_names_from_txt e path =
     (case txt_lines e path of
        None \<Rightarrow> Inl (OSError path)
      | Some lines \<Rightarrow> Inr (filter (\<lambda>n. n \<noteq> []) (map py_strip lines)))"

subsection \<open>\<open>csv.DictReader\<close>\<close>

text \<open>
  The first record is the list of field names. Of the records behind it the reader
  passes over the empty ones and turns each other one into a dictionary from the field
  names to its cells (the last cell of a name that occurs twice); a field name without a
  cell in the record has the value \<open>None\<close>, which is how \<open>row.get\<close> answers for a column
  that is no field name as well.
\<close>

definition to_dict :: "pstr list \<Rightarrow> pstr list \<Rightarrow> (pstr \<rightharpoonup> pstr)" where
  \<comment> \<open>\<open>dict(zip(fieldnames, row))\<close>\<close>
  "to_dict fieldnames record = map_of (rev (zip fieldnames record))"

definition dict_reader :: "pstr list list \<Rightarrow> (pstr \<rightharpoonup> pstr) list" where
  "dict_reader records =
     (case records of
        [] \<Rightarrow> []
      | fieldnames # rest \<Rightarrow> map (to_dict fieldnames) (filter (\<lambda>record. record \<noteq> []) rest))"

definition get_or_empty :: "(pstr \<rightharpoonup> pstr) \<Rightarrow> pstr \<Rightarrow> pstr" where
  \<comment> \<open>\<open>row.get(col) or ""\<close>\<close>
  "get_or_empty row col = (case row col of None \<Rightarrow> [] | Some v \<Rightarrow> v)"

definition full_name_of :: "pstr \<Rightarrow> pstr \<Rightarrow> pstr \<Rightarrow> (pstr \<rightharpoonup> pstr) \<Rightarrow> pstr" where
  \<comment> \<open>what \<open>full_name\<close> is for one row\<close>
  "full_name_of name_col first_col last_col row =
     (if name_col \<noteq> [] then py_strip (get_or_empty row name_col)
      else let first = py_strip (get_or_empty row first_col);
               last = py_strip (get_or_empty row last_col)
           in py_strip (py_join (str '' '') (filter (\<lambda>part. part \<noteq> []) [first, last])))"

fun csv_loop ::
  "pstr \<Rightarrow> pstr \<Rightarrow> pstr \<Rightarrow> nat \<Rightarrow> (pstr \<rightharpoonup> pstr) list \<Rightarrow>
   pstr list \<Rightarrow> nat list \<Rightarrow> pstr list \<times> nat list" where
  \<comment> \<open>\<open>for i, row in enumerate(reader, start=2)\<close>\<close>
  "csv_loop name_col first_col last_col i [] names skipped_rows = (names, skipped_rows)"
| "csv_loop name_col first_col last_col i (row # rows) names skipped_rows =
     (let full_name = full_name_of name_col first_col last_col row
      in if full_name \<noteq> []
         then csv_loop name_col first_col last_col (Suc i) rows (names @ [full_name]) skipped_rows
         else csv_loop name_col first_col last_col (Suc i) rows names (skipped_rows @ [i]))"

definition load_names_from_csv ::
  "env \<Rightarrow> pstr \<Rightarrow> pstr \<Rightarrow> pstr \<Rightarrow> pstr \<Rightarrow> exn + (pstr list \<times> nat list)" where
  "load_names_from_csv e path name_col first_col last_col =
     (case csv_records e path of
        None \<Rightarrow> Inl (OSError path)
      | Some records \<Rightarrow>
          Inr (csv_loop name_col first_col last_col 2 (dict_reader records) [] []))"

fun unique_loop :: "pstr list \<Rightarrow> pstr set \<Rightarrow> pstr list \<Rightarrow> pstr list" where
  "unique_loop [] seen out = out"
| "unique_loop (v # vs) seen out =
     (let key = py_lower (py_strip v)
      in if key \<in> seen then unique_loop vs seen out
         else unique_loop vs (insert key seen) (out @ [v]))"

definition unique_preserve_order :: "pstr list \<Rightarrow> pstr list" where
  "unique_preserve_order vs = unique_loop vs {} []"

definition skipped_notice :: "nat list \<Rightarrow> pstr" where
  "skipped_notice skipped =
     str ''Skipped '' @ str_nat (length skipped) @ str '' empty row(s) in CSV: ''
     @ py_join (str '', '') (map str_nat (take 10 skipped))
     @ (if length skipped > 10 then str '' ...'' else [])"

definition gather_names :: "args \<Rightarrow> env \<Rightarrow> exn + (pstr list \<times> pstr list)" where
  \<comment> \<open>\<open>build_name_list\<close> up to the deduplication: the names of the three sources, one after
      the other, and the notices\<close>
  "gather_names a e =
     (let names0 = map py_strip (filter (\<lambda>n. py_strip n \<noteq> []) (name a))
      in case (case input_txt a of
                 None \<Rightarrow> Inr []
               | Some p \<Rightarrow> if p \<noteq> [] then load_names_from_txt e p else Inr []) of
           Inl x \<Rightarrow> Inl x
         | Inr txt_names \<Rightarrow>
             (case (case input_csv a of
                      None \<Rightarrow> Inr ([], [])
                    | Some p \<Rightarrow>
                        if p \<noteq> []
                        then load_names_from_csv e p (name_column a) (first_name_column a)
                               (last_name_column a)
                        else Inr ([], [])) of
                Inl x \<Rightarrow> Inl x
              | Inr (csv_names, skipped) \<Rightarrow>
                  Inr (names0 @ txt_names @ csv_names,
                       if skipped \<noteq> [] then [skipped_notice skipped] else [])))"

definition build_name_list :: "args \<Rightarrow> env \<Rightarrow> exn + (pstr list \<times> pstr list)" where
  "build_name_list a e =
     (case gather_names a e of
        Inl x \<Rightarrow> Inl x
      | Inr (names, notices) \<Rightarrow>
          Inr (if \<not> no_dedupe a then unique_preserve_order names else names, notices))"

section \<open>The batch\<close>

record row =
  query_name :: pstr
  status :: pstr
  match_count :: int
  search_url :: pstr
  entity_results :: pstr
  error :: pstr

definition NO_MATCH_MARKER :: pstr where
  "NO_MATCH_MARKER = str ''No matching entities were found.''"

definition BASE_SEARCH_URL :: "pstr \<Rightarrow> pstr" where
  \<comment> \<open>\<open>BASE_SEARCH_URL.format(query=query)\<close>\<close>
  "BASE_SEARCH_URL query = str ''https://www.opensanctions.org/search/?q='' @ query"

definition fetch_search_html :: "env \<Rightarrow> nat \<Rightarrow> pstr \<Rightarrow> exn + (pstr \<times> pstr)" where
  "fetch_search_html e i n =
     (case quote_plus n of
        Inl x \<Rightarrow> Inl x
      | Inr query \<Rightarrow>
          (let url = BASE_SEARCH_URL query
           in case http_get e i url of
                Inl exc \<Rightarrow> Inl (Raised exc)
              | Inr body \<Rightarrow> Inr (url, body)))"

definition entity_cell :: "pstr \<times> pstr \<Rightarrow> pstr" where
  \<comment> \<open>\<open>f"{title} ({url})" if title else url\<close>\<close>
  "entity_cell en =
     (case en of (title, url) \<Rightarrow>
        if title \<noteq> [] then title @ str '' ('' @ url @ str '')'' else url)"

definition entity_str :: "(pstr \<times> pstr) list \<Rightarrow> pstr" where
  "entity_str entities = py_join (str '' | '') (map entity_cell entities)"

definition unknown_note :: pstr where
  "unknown_note = str ''Search page returned without parseable entity links.''"

fun exn_text :: "exn \<Rightarrow> pstr" where
  \<comment> \<open>\<open>str(exc)\<close> in the handler of \<open>main\<close>. Only the exception of a request gets as far as
      that: the one of \<open>quote_plus\<close> is raised again by the line before, see
      \<open>query_row\<close>\<close>
  "exn_text (Raised t) = t"
| "exn_text x = []"

definition query_row :: "env \<Rightarrow> int \<Rightarrow> nat \<Rightarrow> pstr \<Rightarrow> exn + row" where
  \<comment> \<open>one turn of the loop of \<open>main\<close> up to \<open>result_rows.append\<close>: \<open>Inr\<close> the row appended,
      \<open>Inl\<close> the exception that leaves the handler\<close>
  "query_row e maxl i n =
     (case fetch_search_html e i n of
        Inr (url, page) \<Rightarrow>
          if py_in NO_MATCH_MARKER page
          then Inr \<lparr>query_name = n, status = str ''no_match'', match_count = 0,
                    search_url = url, entity_results = [], error = []\<rparr>
          else (let entities = extract_entities (charref e) page maxl
                in if entities \<noteq> []
                   then Inr \<lparr>query_name = n, status = str ''match'',
                             match_count = int (length entities), search_url = url,
                             entity_results = entity_str entities, error = []\<rparr>
                   else Inr \<lparr>query_name = n, status = str ''unknown'', match_count = 0,
                             search_url = url, entity_results = [], error = unknown_note\<rparr>)
      | Inl exc \<Rightarrow>
          (case quote_plus n of
             Inl x \<Rightarrow> Inl x
           | Inr query \<Rightarrow>
               Inr \<lparr>query_name = n, status = str ''error'', match_count = 0,
                    search_url = BASE_SEARCH_URL query, entity_results = [],
                    error = exn_text exc\<rparr>))"

fun batch_loop ::
  "env \<Rightarrow> int \<Rightarrow> pyfloat \<Rightarrow> nat \<Rightarrow> nat \<Rightarrow> pstr list \<Rightarrow> row list \<Rightarrow> exn + row list" where
  \<comment> \<open>\<open>for i, name in enumerate(names, start=1)\<close>, with \<open>result_rows\<close> as accumulator and
      \<open>len_names\<close> for \<open>len(names)\<close>; \<open>Inl\<close> the exception that ends the loop\<close>
  "batch_loop e maxl slp len_names i [] result_rows = Inr result_rows"
| "batch_loop e maxl slp len_names i (n # ns) result_rows =
     (case query_row e maxl i n of
        Inl x \<Rightarrow> Inl x
      | Inr r \<Rightarrow>
          if float_gt_zero slp \<and> i < len_names
          then (case time_sleep (finite_sleep e) slp of
                  Some x \<Rightarrow> Inl x
                | None \<Rightarrow> batch_loop e maxl slp len_names (Suc i) ns (result_rows @ [r]))
          else batch_loop e maxl slp len_names (Suc i) ns (result_rows @ [r]))"

section \<open>The report\<close>

definition header :: "pstr list" where
  "header = [str ''query_name'', str ''status'', str ''match_count'', str ''search_url'',
             str ''entity_results'', str ''error'']"

definition row_cells :: "row \<Rightarrow> pstr list" where
  "row_cells r =
     [query_name r, status r, str_int (match_count r), search_url r, entity_results r, error r]"

definition row_encodable :: "row \<Rightarrow> bool" where
  \<comment> \<open>the rows that the file, opened with \<open>encoding="utf-8"\<close>, takes\<close>
  "row_encodable r = (\<not> list_ex has_surrogate (row_cells r))"

text \<open>
  The file written is modelled as the rows handed to \<open>csv.writer\<close>, each a list of cells,
  with the path. \<open>write_results\<close> returns the exception it raises, if any, and the file it
  leaves behind, if any: none when the file cannot be opened, and the rows before the
  first one that cannot be encoded when there is such a row.
\<close>

definition write_results ::
  "env \<Rightarrow> pstr \<Rightarrow> row list \<Rightarrow> exn option \<times> (pstr \<times> pstr list list) option" where
  "write_results e path rows =
     (if \<not> writable e path then (Some (OSError path), None)
      else if list_all row_encodable rows
      then (None, Some (path, header # map row_cells rows))
      else (Some UnicodeEncodeError,
            Some (path, header # map row_cells (takeWhile row_encodable rows))))"

text \<open>
  What a run leaves behind: \<open>returned\<close> is \<open>Inr\<close> the value \<open>main\<close> returns or \<open>Inl\<close> the
  exception that leaves it, \<open>stderr\<close> and \<open>stdout\<close> are the lines \<open>main\<close> has printed, and
  \<open>report\<close> is the file written, if any.
\<close>

record outcome =
  returned :: "exn + int"
  stderr :: "pstr list"
  stdout :: "pstr list"
  report :: "(pstr \<times> pstr list list) option"

definition no_names_message :: pstr where
  "no_names_message = str ''No names provided. Use --name, --input-txt or --input-csv.''"

definition count_status :: "pstr \<Rightarrow> row list \<Rightarrow> nat" where
  "count_status st rows = length (filter (\<lambda>r. status r = st) rows)"

definition summary :: "pstr \<Rightarrow> row list \<Rightarrow> pstr" where
  "summary out rows =
     str ''Done. Output: '' @ out @ str '' | total='' @ str_nat (length rows)
     @ str '', match='' @ str_nat (count_status (str ''match'') rows)
     @ str '', no_match='' @ str_nat (count_status (str ''no_match'') rows)
     @ str '', error='' @ str_nat (count_status (str ''error'') rows)"

definition apply_limit :: "int \<Rightarrow> pstr list \<Rightarrow> pstr list" where
  \<comment> \<open>\<open>if args.limit > 0: names = names[: args.limit]\<close>\<close>
  "apply_limit lmt names = (if lmt > 0 then take (nat lmt) names else names)"

definition main :: "args \<Rightarrow> env \<Rightarrow> outcome" where
  "main a e =
     (case build_name_list a e of
        Inl x \<Rightarrow> \<lparr>returned = Inl x, stderr = [], stdout = [], report = None\<rparr>
      | Inr (names, notices) \<Rightarrow>
          if names = []
          then \<lparr>returned = Inr 2, stderr = [no_names_message], stdout = [], report = None\<rparr>
          else (let names' = apply_limit (limit a) names
                in case batch_loop e (max_links a) (sleep a) (length names') 1 names' [] of
                     Inl x \<Rightarrow> \<lparr>returned = Inl x, stderr = [], stdout = [], report = None\<rparr>
                   | Inr result_rows \<Rightarrow>
                       (case write_results e (output_path a) result_rows of
                          (Some x, file) \<Rightarrow>
                            \<lparr>returned = Inl x, stderr = [], stdout = [], report = file\<rparr>
                        | (None, file) \<Rightarrow>
                            (let line = summary (output_path a) result_rows
                             in if stdout_strict e \<and> has_surrogate line
                                then \<lparr>returned = Inl UnicodeEncodeError,
                                      stderr = map (\<lambda>notice. str ''Notice: '' @ notice) notices,
                                      stdout = [], report = file\<rparr>
                                else \<lparr>returned = Inr 0,
                                      stderr = map (\<lambda>notice. str ''Notice: '' @ notice) notices,
                                      stdout = [line], report = file\<rparr>))))"

section \<open>First occurrences\<close>

text \<open>
  The specification's notion for both deduplications: the elements of a list whose key
  no earlier element has, in the order of the list.
\<close>

definition first_occurrences :: "('a \<Rightarrow> 'k) \<Rightarrow> 'a list \<Rightarrow> 'a list" where
  "first_occurrences key xs =
     map (\<lambda>i. xs ! i)
       (filter (\<lambda>i. \<forall>j\<in>{0..<i}. key (xs ! j) \<noteq> key (xs ! i)) [0..<length xs])"

definition name_key :: "pstr \<Rightarrow> pstr" where
  \<comment> \<open>the trimmed, case-folded form of a name\<close>
  "name_key v = py_lower (py_strip v)"

text \<open>The same with a set of keys seen before, as the two loops of the program keep it.\<close>

fun keep_first :: "('a \<Rightarrow> 'k) \<Rightarrow> 'k set \<Rightarrow> 'a list \<Rightarrow> 'a list" where
  "keep_first key seen [] = []"
| "keep_first key seen (x # xs) =
     (if key x \<in> seen then keep_first key seen xs
      else x # keep_first key (insert (key x) seen) xs)"

definition candidates :: "(pstr \<Rightarrow> pstr) \<Rightarrow> pstr \<Rightarrow> (pstr \<times> pstr) list" where
  \<comment> \<open>the entity anchors of a page in document order, as pairs \<open>(title, abs_url)\<close>\<close>
  "candidates cr html_text = map (entity_of cr) (findall_entities html_text)"

definition title_url_cell :: "pstr \<times> pstr \<Rightarrow> pstr" where
  \<comment> \<open>the entry \<open>title (url)\<close> of the specification\<close>
  "title_url_cell en = (case en of (title, url) \<Rightarrow> title @ str '' ('' @ url @ str '')'')"


definition file_row :: "pstr list list \<Rightarrow> nat \<Rightarrow> pstr list" where
  \<comment> \<open>the record on row \<open>k\<close> of a file, the header being row 1\<close>
  "file_row records k = records ! (k - 1)"

section \<open>Example runs\<close>

definition marker_page :: pstr where
  "marker_page =
     str ''<p><a href=\"/entities/Q7\">Old</a> No matching entities were found.</p>''"

definition anchors_page :: pstr where
  "anchors_page =
     str ''<ul><a class=\"c\" href=\"/entities/Q1\"><b>Ann</b> Lee</a><a href=\"/entities/Q1\"> ann lee </a><a href=\"/entities/Q1\">Bob</a><a href=\"/entities/Q2\"><img src=\"i.png\"></a><a href=\"/entities/Q3\">Cy</a></ul>''"

definition plain_page :: pstr where
  "plain_page = str ''<html><body>Welcome</body></html>''"

definition one_anchor_page :: pstr where
  "one_anchor_page = str ''<a href=\"/entities/x\">X</a>''"

definition example_http :: "nat \<Rightarrow> pstr \<Rightarrow> pstr + pstr" where
  "example_http i url =
     (if url = str ''https://www.opensanctions.org/search/?q=Jane+Doe'' then Inr marker_page
      else if url = str ''https://www.opensanctions.org/search/?q=Ann+Lee'' then Inr anchors_page
      else if url = str ''https://www.opensanctions.org/search/?q=Solo'' then Inr plain_page
      else Inl (str ''timed out''))"


definition example_records :: "pstr list list" where
  "example_records =
     [[str ''Vorname'', str ''Nachname''],
      [str ''Ann'', str ''Lee''],
      [str '' '', []],
      [[], str ''Solo''],
      [[]]]"

definition gap_records :: "pstr list list" where
  \<comment> \<open>a file with an empty line on row 2\<close>
  "gap_records =
     [[str ''Vorname'', str ''Nachname''],
      [],
      [str ''Ann'', str ''Lee''],
      [str '' '', []]]"

definition example_sleep :: "rat \<Rightarrow> exn option" where
  "example_sleep r = (if r < 0 then Some ValueError else if 1000000 < r then Some OverflowError else None)"

definition example_env :: env where
  "example_env =
     \<lparr>txt_lines = [str ''names.txt'' \<mapsto>
                    [str ''  Jane Doe\<newline>'', str ''\<newline>'', str ''jane doe \<newline>'',
                     str ''Joe Roe'']],
      csv_records = [str ''people.csv'' \<mapsto> example_records, str ''gap.csv'' \<mapsto> gap_records],
      writable = (\<lambda>path. True),
      http_get = example_http,
      charref = (\<lambda>s. s),
      finite_sleep = example_sleep,
      stdout_strict = True\<rparr>"



definition example_args :: args where
  "example_args =
     \<lparr>name = [str '' Ann Lee '', str ''  ''], input_txt = Some (str ''names.txt''),
      input_csv = Some (str ''people.csv''), name_column = [],
      first_name_column = str ''Vorname'', last_name_column = str ''Nachname'',
      output_path = str ''out.csv'', max_links = 3, sleep = Finite (1 / 2),
      no_dedupe = False, limit = 0\<rparr>"


definition surrogate_args :: args where
  \<comment> \<open>\<open>--name\<close> with the byte \<open>0xFC\<close>, which is no UTF-8\<close>
  "surrogate_args =
     example_args\<lparr>name := [str ''Ann Lee'', str ''M'' @ [Surrogate (CHR 0xFC)] @ str ''ller''],
                  input_txt := None, input_csv := None\<rparr>"

definition endless_sleep_args :: args where
  \<comment> \<open>\<open>--sleep inf\<close>\<close>
  "endless_sleep_args = example_args\<lparr>sleep := PosInf\<rparr>"

section \<open>Lemmas on first occurrences\<close>

lemma upt_0_Suc_shift: "[0..<Suc n] = 0 # map Suc [0..<n]"
  by (simp add: upt_conv_Cons map_Suc_upt del: upt_Suc)

lemma ball_upt_Suc_shift:
  "(\<forall>j\<in>{0..<Suc i}. P j) \<longleftrightarrow> P 0 \<and> (\<forall>j\<in>{0..<i}. P (Suc j))"
proof
  assume a: "\<forall>j\<in>{0..<Suc i}. P j"
  show "P 0 \<and> (\<forall>j\<in>{0..<i}. P (Suc j))" using a by auto
next
  assume a: "P 0 \<and> (\<forall>j\<in>{0..<i}. P (Suc j))"
  show "\<forall>j\<in>{0..<Suc i}. P j"
  proof
    fix j assume "j \<in> {0..<Suc i}"
    then show "P j" using a by (cases j) auto
  qed
qed

lemma keep_first_index:
  "keep_first key seen xs =
     map (\<lambda>i. xs ! i)
       (filter (\<lambda>i. key (xs ! i) \<notin> seen \<and> (\<forall>j\<in>{0..<i}. key (xs ! j) \<noteq> key (xs ! i)))
          [0..<length xs])"
proof (induction xs arbitrary: seen)
  case Nil
  show ?case by simp
next
  case (Cons x xs)
  show ?case
  proof (cases "key x \<in> seen")
    case True
    have "filter (\<lambda>i. key (xs ! i) \<notin> seen \<and> (\<forall>j\<in>{0..<i}. key (xs ! j) \<noteq> key (xs ! i)))
            [0..<length xs]
        = filter (\<lambda>i. key (xs ! i) \<notin> seen \<and> key x \<noteq> key (xs ! i)
                     \<and> (\<forall>j\<in>{0..<i}. key (xs ! j) \<noteq> key (xs ! i))) [0..<length xs]"
      using True by (intro filter_cong) auto
    with True Cons.IH [of seen] show ?thesis
      by (simp add: upt_0_Suc_shift filter_map comp_def ball_upt_Suc_shift del: upt_Suc)
  next
    case False
    with Cons.IH [of "insert (key x) seen"] show ?thesis
      by (simp add: upt_0_Suc_shift filter_map comp_def ball_upt_Suc_shift conj_commute
            conj_left_commute eq_commute [of "key x"] del: upt_Suc)
  qed
qed

lemma keep_first_empty: "keep_first key {} xs = first_occurrences key xs"
  by (simp add: keep_first_index first_occurrences_def)

lemma keep_first_keys: "key ` set (keep_first key seen xs) = key ` set xs - seen"
  by (induction xs arbitrary: seen) auto

lemma keep_first_distinct: "distinct (map key (keep_first key seen xs))"
  by (induction xs arbitrary: seen) (auto simp: keep_first_keys)

lemma keep_first_length: "length (keep_first key seen xs) = card (key ` set xs - seen)"
proof -
  have "length (keep_first key seen xs) = length (map key (keep_first key seen xs))"
    by simp
  also have "\<dots> = card (set (map key (keep_first key seen xs)))"
    using keep_first_distinct [of key seen xs] by (simp only: distinct_card)
  also have "\<dots> = card (key ` set xs - seen)"
    by (simp add: keep_first_keys)
  finally show ?thesis .
qed

lemma keep_first_subseq: "subseq (keep_first key seen xs) xs"
  by (induction xs arbitrary: seen) auto


lemma unique_loop_keep_first:
  "unique_loop vs seen out = out @ keep_first name_key seen vs"
  by (induction vs arbitrary: seen out) (simp_all add: Let_def name_key_def)

lemma unique_preserve_order_eq: "unique_preserve_order vs = first_occurrences name_key vs"
  by (simp add: unique_preserve_order_def unique_loop_keep_first keep_first_empty)

lemma extract_loop_keep_first:
  "extract_loop cr maxl ms seen ents =
     ents @ take (max 1 (nat (maxl - int (length ents))))
              (keep_first entity_key seen (map (entity_of cr) ms))"
proof (induction ms arbitrary: seen ents)
  case Nil
  show ?case by simp
next
  case (Cons m ms)
  show ?case
  proof (cases "entity_key (entity_of cr m) \<in> seen")
    case True
    with Cons.IH [of seen ents] show ?thesis by (simp add: Let_def)
  next
    case False
    show ?thesis
    proof (cases "maxl \<le> int (length ents) + 1")
      case True
      then have "max 1 (nat (maxl - int (length ents))) = 1" by simp
      with True False show ?thesis by (simp add: Let_def)
    next
      case more: False
      then have "max 1 (nat (maxl - int (length ents)))
                 = Suc (max 1 (nat (maxl - (1 + int (length ents)))))"
        by simp
      with more False
        Cons.IH [of "insert (entity_key (entity_of cr m)) seen" "ents @ [entity_of cr m]"]
      show ?thesis by (simp add: Let_def)
    qed
  qed
qed

lemma extract_entities_eq:
  "extract_entities cr html_text maxl =
     take (max 1 (nat maxl)) (first_occurrences entity_key (candidates cr html_text))"
  by (simp add: extract_entities_def extract_loop_keep_first keep_first_empty candidates_def)

lemma extract_entities_cap_positive:
  assumes "1 \<le> maxl"
  shows "length (extract_entities cr html_text maxl) \<le> nat maxl"
    and "int (card (entity_key ` set (candidates cr html_text))) > maxl \<Longrightarrow>
           extract_entities cr html_text maxl =
             take (nat maxl) (first_occurrences entity_key (candidates cr html_text))
           \<and> length (extract_entities cr html_text maxl) = nat maxl"
proof -
  have cap: "max 1 (nat maxl) = nat maxl" using assms by simp
  have eq: "extract_entities cr html_text maxl =
              take (nat maxl) (first_occurrences entity_key (candidates cr html_text))"
    unfolding extract_entities_eq cap ..
  show "length (extract_entities cr html_text maxl) \<le> nat maxl"
    unfolding eq by simp
  assume "int (card (entity_key ` set (candidates cr html_text))) > maxl"
  then have "nat maxl \<le> length (keep_first entity_key {} (candidates cr html_text))"
    by (simp add: keep_first_length)
  then have "length (extract_entities cr html_text maxl) = nat maxl"
    unfolding eq by (simp add: keep_first_empty)
  with eq show "extract_entities cr html_text maxl =
             take (nat maxl) (first_occurrences entity_key (candidates cr html_text))
           \<and> length (extract_entities cr html_text maxl) = nat maxl"
    by simp
qed

section \<open>Deduplication of names\<close>

text \<open>
  C5. With deduplication enabled, \<open>build_name_list\<close> returns the first occurrences of the
  gathered names under the key "trimmed and lower-cased", in their original order and as
  the strings first seen: \<open>unique_preserve_order\<close> is \<open>first_occurrences name_key\<close>, a
  subsequence of its input with pairwise different keys. With \<open>--no-dedupe\<close> the gathered
  names are returned unchanged.
\<close>

theorem dedup_first_occurrences:
  "unique_preserve_order vs = first_occurrences name_key vs
   \<and> subseq (unique_preserve_order vs) vs
   \<and> distinct (map name_key (unique_preserve_order vs))
   \<and> (gather_names a e = Inr (names, notices) \<longrightarrow>
        build_name_list a e =
          Inr (if no_dedupe a then names else first_occurrences name_key names, notices))"
proof -
  have eq: "unique_preserve_order vs = keep_first name_key {} vs"
    by (simp add: unique_preserve_order_def unique_loop_keep_first)
  have sub: "subseq (unique_preserve_order vs) vs"
    unfolding eq by (rule keep_first_subseq)
  have dis: "distinct (map name_key (unique_preserve_order vs))"
    unfolding eq by (rule keep_first_distinct)
  have bld: "gather_names a e = Inr (names, notices) \<longrightarrow>
        build_name_list a e =
          Inr (if no_dedupe a then names else first_occurrences name_key names, notices)"
    by (simp add: build_name_list_def unique_preserve_order_eq)
  from unique_preserve_order_eq sub dis bld show ?thesis by blast
qed

theorem dedup_first_occurrences_witness:
  "unique_preserve_order [(str ''Jane Doe''), (str '' jane doe''), (str ''Bob''), (str ''JANE DOE ''), (str ''bob'')]
     = [(str ''Jane Doe''), (str ''Bob'')]
   \<and> gather_names example_args example_env =
       Inr ([(str ''Ann Lee''), (str ''Jane Doe''), (str ''jane doe''), (str ''Joe Roe''), (str ''Ann Lee''), (str ''Solo'')],
            [(str ''Skipped 2 empty row(s) in CSV: 3, 5'')])
   \<and> build_name_list example_args example_env =
       Inr ([(str ''Ann Lee''), (str ''Jane Doe''), (str ''Joe Roe''), (str ''Solo'')],
            [(str ''Skipped 2 empty row(s) in CSV: 3, 5'')])
   \<and> build_name_list (example_args\<lparr>no_dedupe := True\<rparr>) example_env =
       Inr ([(str ''Ann Lee''), (str ''Jane Doe''), (str ''jane doe''), (str ''Joe Roe''), (str ''Ann Lee''), (str ''Solo'')],
            [(str ''Skipped 2 empty row(s) in CSV: 3, 5'')])"
proof -
  have f1: "first_occurrences name_key [(str ''Jane Doe''), (str '' jane doe''), (str ''Bob''), (str ''JANE DOE ''), (str ''bob'')]
              = [(str ''Jane Doe''), (str ''Bob'')]"
    by code_simp
  have g1: "gather_names example_args example_env =
       Inr ([(str ''Ann Lee''), (str ''Jane Doe''), (str ''jane doe''), (str ''Joe Roe''), (str ''Ann Lee''), (str ''Solo'')],
            [(str ''Skipped 2 empty row(s) in CSV: 3, 5'')])"
    by code_simp
  have g2: "gather_names (example_args\<lparr>no_dedupe := True\<rparr>) example_env =
       Inr ([(str ''Ann Lee''), (str ''Jane Doe''), (str ''jane doe''), (str ''Joe Roe''), (str ''Ann Lee''), (str ''Solo'')],
            [(str ''Skipped 2 empty row(s) in CSV: 3, 5'')])"
    by code_simp
  have f2: "first_occurrences name_key
              [(str ''Ann Lee''), (str ''Jane Doe''), (str ''jane doe''), (str ''Joe Roe''), (str ''Ann Lee''), (str ''Solo'')]
            = [(str ''Ann Lee''), (str ''Jane Doe''), (str ''Joe Roe''), (str ''Solo'')]"
    by code_simp
  have n1: "\<not> no_dedupe example_args" by (simp add: example_args_def)
  note t1 = dedup_first_occurrences
    [of "[(str ''Jane Doe''), (str '' jane doe''), (str ''Bob''), (str ''JANE DOE ''), (str ''bob'')]" example_args example_env
        "[(str ''Ann Lee''), (str ''Jane Doe''), (str ''jane doe''), (str ''Joe Roe''), (str ''Ann Lee''), (str ''Solo'')]"
        "[(str ''Skipped 2 empty row(s) in CSV: 3, 5'')]"]
  note t2 = dedup_first_occurrences
    [of "[]" "example_args\<lparr>no_dedupe := True\<rparr>" example_env
        "[(str ''Ann Lee''), (str ''Jane Doe''), (str ''jane doe''), (str ''Joe Roe''), (str ''Ann Lee''), (str ''Solo'')]"
        "[(str ''Skipped 2 empty row(s) in CSV: 3, 5'')]"]
  from t1 t2 f1 f2 g1 g2 n1 show ?thesis by simp
qed

section \<open>The extractor: deduplication and cap\<close>



text \<open>
  C2. The loop looks at the cap only after it has appended an entry. With a cap of 0 (or
  below) and a page that has an entity anchor, \<open>extract_entities\<close> therefore returns one
  entry, which is more than the cap.
\<close>

theorem extract_entities_cap_zero:
  "extract_entities cr one_anchor_page 0
     = [(str ''X'', str ''https://www.opensanctions.org/entities/x'')]
   \<and> \<not> int (length (extract_entities cr one_anchor_page 0)) \<le> 0"
proof -
  have m: "findall_entities one_anchor_page = [(str ''/entities/x'', [Code CHR ''X''])]"
    by code_simp
  have s: "sub_empty tag_pattern [Code CHR ''X''] = [Code CHR ''X'']"
    by code_simp
  have p: "py_strip [Code CHR ''X''] = [Code CHR ''X'']"
    by code_simp
  have "extract_entities cr one_anchor_page 0 =
          [(str ''X'', str ''https://www.opensanctions.org/entities/x'')]"
    by (simp add: extract_entities_def m entity_of_def entity_key_def html_unescape_def s p)
  then show ?thesis by simp
qed

section \<open>The batch loop\<close>

lemma has_surrogate_simps:
  "has_surrogate [] = False"
  "has_surrogate (c # s) = (is_surrogate c \<or> has_surrogate s)"
  "has_surrogate (s @ t) = (has_surrogate s \<or> has_surrogate t)"
  "has_surrogate (str l) = False"
  by (auto simp: has_surrogate_def list_ex_iff)

lemma quote_plus_surrogate: "has_surrogate n \<Longrightarrow> quote_plus n = Inl UnicodeEncodeError"
  by (induction n rule: quote_plus.induct) (simp_all add: has_surrogate_simps)


lemma quote_plus_Inl: "quote_plus n = Inl x \<Longrightarrow> has_surrogate n \<and> x = UnicodeEncodeError"
  by (induction n rule: quote_plus.induct) (auto simp: has_surrogate_simps split: sum.splits)

lemma quote_plus_Inr: "quote_plus n = Inr q \<Longrightarrow> \<not> has_surrogate n"
  using quote_plus_surrogate [of n] by auto

lemma fetch_failure_is_request:
  "quote_plus n = Inr q \<Longrightarrow> fetch_search_html e i n = Inl exc \<Longrightarrow>
     \<exists>t. exc = Raised t \<and> http_get e i (BASE_SEARCH_URL q) = Inl t"
  by (auto simp: fetch_search_html_def Let_def split: sum.splits)

lemma query_row_raises: "quote_plus n = Inl x \<Longrightarrow> query_row e maxl i n = Inl x"
  by (simp add: query_row_def fetch_search_html_def)

lemma query_row_error:
  "quote_plus n = Inr q \<Longrightarrow> http_get e i (BASE_SEARCH_URL q) = Inl exc \<Longrightarrow>
     query_row e maxl i n =
       Inr \<lparr>query_name = n, status = str ''error'', match_count = 0,
            search_url = BASE_SEARCH_URL q, entity_results = [], error = exc\<rparr>"
  by (simp add: query_row_def fetch_search_html_def Let_def)

lemma query_row_page:
  "quote_plus n = Inr q \<Longrightarrow> http_get e i (BASE_SEARCH_URL q) = Inr page \<Longrightarrow>
     query_row e maxl i n =
       Inr (if py_in NO_MATCH_MARKER page
            then \<lparr>query_name = n, status = str ''no_match'', match_count = 0,
                  search_url = BASE_SEARCH_URL q, entity_results = [], error = []\<rparr>
            else if extract_entities (charref e) page maxl \<noteq> []
            then \<lparr>query_name = n, status = str ''match'',
                  match_count = int (length (extract_entities (charref e) page maxl)),
                  search_url = BASE_SEARCH_URL q,
                  entity_results = entity_str (extract_entities (charref e) page maxl),
                  error = []\<rparr>
            else \<lparr>query_name = n, status = str ''unknown'', match_count = 0,
                  search_url = BASE_SEARCH_URL q, entity_results = [],
                  error = unknown_note\<rparr>)"
  by (simp add: query_row_def fetch_search_html_def Let_def)

lemma query_row_Inr:
  assumes "query_row e maxl i n = Inr r"
  shows "\<exists>q. quote_plus n = Inr q"
proof (cases "quote_plus n")
  case (Inl x)
  with query_row_raises [of n x e maxl i] assms show ?thesis by simp
next
  case (Inr q)
  then show ?thesis by blast
qed

lemma query_row_name: "query_row e maxl i n = Inr r \<Longrightarrow> query_name r = n"
proof -
  assume r: "query_row e maxl i n = Inr r"
  then obtain q where q: "quote_plus n = Inr q" using query_row_Inr by blast
  show ?thesis
  proof (cases "http_get e i (BASE_SEARCH_URL q)")
    case (Inl exc)
    from query_row_error [OF q Inl, of maxl] r show ?thesis by auto
  next
    case (Inr page)
    from query_row_page [OF q Inr, of maxl] r show ?thesis by (auto split: if_splits)
  qed
qed

lemma query_row_error_message:
  assumes r: "query_row e maxl i n = Inr r" and q: "quote_plus n = Inr q"
  shows "(status r = str ''match'' \<or> status r = str ''no_match'' \<longrightarrow> error r = [])
   \<and> (status r = str ''unknown'' \<longrightarrow> error r = unknown_note)
   \<and> (status r = str ''error'' \<longrightarrow> http_get e i (BASE_SEARCH_URL q) = Inl (error r))
   \<and> (error r \<noteq> [] \<longrightarrow> status r = str ''error'' \<or> status r = str ''unknown'')
   \<and> status r \<in> {str ''match'', str ''no_match'', str ''unknown'', str ''error''}"
proof (cases "http_get e i (BASE_SEARCH_URL q)")
  case (Inl exc)
  from query_row_error [OF q Inl, of maxl] r
  have "r = \<lparr>query_name = n, status = str ''error'', match_count = 0,
            search_url = BASE_SEARCH_URL q, entity_results = [], error = exc\<rparr>"
    by simp
  with Inl show ?thesis by simp
next
  case (Inr page)
  from query_row_page [OF q Inr, of maxl] r Inr show ?thesis
    by (auto split: if_splits)
qed

lemma batch_loop_Inr:
  "batch_loop e maxl slp len_names i names rows = Inr out \<Longrightarrow>
     length out = length rows + length names
     \<and> take (length rows) out = rows
     \<and> (\<forall>k<length names. query_row e maxl (i + k) (names ! k) = Inr (out ! (length rows + k)))"
proof (induction names arbitrary: i rows)
  case Nil
  then show ?case by simp
next
  case (Cons n ns)
  from Cons.prems obtain r where r: "query_row e maxl i n = Inr r"
    by (auto split: sum.splits)
  with Cons.prems
  have rec: "batch_loop e maxl slp len_names (Suc i) ns (rows @ [r]) = Inr out"
    by (auto split: if_splits option.splits)
  from Cons.IH [OF rec]
  have len: "length out = length rows + 1 + length ns"
    and tk: "take (Suc (length rows)) out = rows @ [r]"
    and rest: "\<forall>k<length ns. query_row e maxl (Suc i + k) (ns ! k)
                 = Inr (out ! (Suc (length rows) + k))"
    by simp_all
  from tk have "take (length rows) (take (Suc (length rows)) out) = take (length rows) (rows @ [r])"
    by simp
  then have tk': "take (length rows) out = rows" by simp
  from tk have "take (Suc (length rows)) out ! length rows = (rows @ [r]) ! length rows"
    by simp
  then have at: "out ! length rows = r" by simp
  have "\<forall>k<length (n # ns). query_row e maxl (i + k) ((n # ns) ! k)
          = Inr (out ! (length rows + k))"
  proof (intro allI impI)
    fix k assume k: "k < length (n # ns)"
    show "query_row e maxl (i + k) ((n # ns) ! k) = Inr (out ! (length rows + k))"
    proof (cases k)
      case 0
      with r at show ?thesis by simp
    next
      case (Suc j)
      with k rest show ?thesis by simp
    qed
  qed
  with len tk' show ?case by simp
qed


lemma batch_loop_raises_on_surrogate:
  "k < length names \<Longrightarrow> has_surrogate (names ! k) \<Longrightarrow>
     \<exists>x. batch_loop e maxl slp len_names i names rows = Inl x"
proof (induction names arbitrary: i rows k)
  case Nil
  then show ?case by simp
next
  case (Cons n ns)
  show ?case
  proof (cases "query_row e maxl i n")
    case (Inl x)
    then show ?thesis by simp
  next
    case (Inr r)
    then obtain q where "quote_plus n = Inr q" using query_row_Inr by blast
    then have "\<not> has_surrogate n" by (rule quote_plus_Inr)
    with Cons.prems obtain j where j: "k = Suc j" "j < length ns" "has_surrogate (ns ! j)"
      by (cases k) auto
    from Cons.IH [OF j(2) j(3)]
    obtain x where "batch_loop e maxl slp len_names (Suc i) ns (rows @ [r]) = Inl x"
      by blast
    with Inr show ?thesis by (auto split: option.splits)
  qed
qed

text \<open>
  C3. The loop does not give one row per name for every name list. A name with a byte
  of the command line that is no UTF-8 holds a lone surrogate; \<open>quote_plus\<close> raises on it
  in \<open>fetch_search_html\<close>, the handler catches that and calls \<open>quote_plus\<close> on the same
  name, which raises again, now outside any handler: the run ends without a row for the
  name, without the rows of the names before it and without a report. The same happens
  after the first name with \<open>--sleep inf\<close>, as \<open>time.sleep\<close> stands outside the handler
  and raises.
\<close>

theorem batch_aborts_on_surrogate_name:
  "build_name_list surrogate_args example_env =
     Inr ([str ''Ann Lee'', str ''M'' @ [Surrogate (CHR 0xFC)] @ str ''ller''], [])
   \<and> main surrogate_args example_env =
       \<lparr>returned = Inl UnicodeEncodeError, stderr = [], stdout = [], report = None\<rparr>
   \<and> main endless_sleep_args example_env =
       \<lparr>returned = Inl OverflowError, stderr = [], stdout = [], report = None\<rparr>"
  by code_simp

text \<open>
  C1, as the program runs. In a batch that has run to its end, the row of each name has
  an empty error message when its status is \<open>match\<close> or \<open>no_match\<close>, the fixed note that
  the page had no parseable entity links when its status is \<open>unknown\<close>, and the text of
  the exception that the request for this very name raised when its status is \<open>error\<close>.
  A non-empty error message therefore comes with status \<open>error\<close> or \<open>unknown\<close>.
\<close>

theorem error_message_by_status:
  "batch_loop e maxl slp len_names i names [] = Inr rows \<Longrightarrow> k < length names \<Longrightarrow>
     length rows = length names
     \<and> (status (rows ! k) = str ''match'' \<or> status (rows ! k) = str ''no_match''
          \<longrightarrow> error (rows ! k) = [])
     \<and> (status (rows ! k) = str ''unknown'' \<longrightarrow> error (rows ! k) = unknown_note)
     \<and> (status (rows ! k) = str ''error'' \<longrightarrow>
          (case quote_plus (names ! k) of
             Inl x \<Rightarrow> False
           | Inr q \<Rightarrow> http_get e (i + k) (BASE_SEARCH_URL q) = Inl (error (rows ! k))))
     \<and> (error (rows ! k) \<noteq> []
          \<longrightarrow> status (rows ! k) = str ''error'' \<or> status (rows ! k) = str ''unknown'')
     \<and> status (rows ! k) \<in> {str ''match'', str ''no_match'', str ''unknown'', str ''error''}"
proof -
  assume b: "batch_loop e maxl slp len_names i names [] = Inr rows" and k: "k < length names"
  from batch_loop_Inr [OF b] k
  have len: "length rows = length names"
    and r: "query_row e maxl (i + k) (names ! k) = Inr (rows ! k)"
    by simp_all
  from r obtain q where q: "quote_plus (names ! k) = Inr q" using query_row_Inr by blast
  from query_row_error_message [OF r q] len q show ?thesis by simp
qed

theorem error_message_by_status_witness:
  "batch_loop example_env 3 (Finite (1 / 2)) 3 1 [str ''Ann Lee'', str ''Joe Roe'', str ''Solo''] []
     = Inr [\<lparr>query_name = str ''Ann Lee'', status = str ''match'', match_count = 3,
             search_url = str ''https://www.opensanctions.org/search/?q=Ann+Lee'',
             entity_results = str ''Ann Lee (https://www.opensanctions.org/entities/Q1) | Bob (https://www.opensanctions.org/entities/Q1) | https://www.opensanctions.org/entities/Q2'',
             error = []\<rparr>,
            \<lparr>query_name = str ''Joe Roe'', status = str ''error'', match_count = 0,
             search_url = str ''https://www.opensanctions.org/search/?q=Joe+Roe'',
             entity_results = [], error = str ''timed out''\<rparr>,
            \<lparr>query_name = str ''Solo'', status = str ''unknown'', match_count = 0,
             search_url = str ''https://www.opensanctions.org/search/?q=Solo'',
             entity_results = [], error = unknown_note\<rparr>]
   \<and> quote_plus (str ''Joe Roe'') = Inr (str ''Joe+Roe'')
   \<and> http_get example_env 2 (BASE_SEARCH_URL (str ''Joe+Roe'')) = Inl (str ''timed out'')"
proof -
  let ?names = "[str ''Ann Lee'', str ''Joe Roe'', str ''Solo'']"
  let ?rows = "[\<lparr>query_name = str ''Ann Lee'', status = str ''match'', match_count = 3,
             search_url = str ''https://www.opensanctions.org/search/?q=Ann+Lee'',
             entity_results = str ''Ann Lee (https://www.opensanctions.org/entities/Q1) | Bob (https://www.opensanctions.org/entities/Q1) | https://www.opensanctions.org/entities/Q2'',
             error = []\<rparr>,
            \<lparr>query_name = str ''Joe Roe'', status = str ''error'', match_count = 0,
             search_url = str ''https://www.opensanctions.org/search/?q=Joe+Roe'',
             entity_results = [], error = str ''timed out''\<rparr>,
            \<lparr>query_name = str ''Solo'', status = str ''unknown'', match_count = 0,
             search_url = str ''https://www.opensanctions.org/search/?q=Solo'',
             entity_results = [], error = unknown_note\<rparr>]"
  have b: "batch_loop example_env 3 (Finite (1 / 2)) 3 1 ?names [] = Inr ?rows"
    by code_simp
  have q: "quote_plus (str ''Joe Roe'') = Inr (str ''Joe+Roe'')"
    by code_simp
  have k: "(1::nat) < length ?names" by simp
  have s: "status (?rows ! 1) = str ''error''" by simp
  from error_message_by_status [OF b k] s
  have c: "case quote_plus (?names ! 1) of
          Inl x \<Rightarrow> False
        | Inr q \<Rightarrow> http_get example_env (1 + 1) (BASE_SEARCH_URL q) = Inl (error (?rows ! 1))"
    by blast
  have n1: "?names ! 1 = str ''Joe Roe''" by simp
  have r1: "error (?rows ! 1) = str ''timed out''" by simp
  from c have "http_get example_env (1 + 1) (BASE_SEARCH_URL (str ''Joe+Roe''))
                 = Inl (str ''timed out'')"
    unfolding n1 r1 q by (simp only: sum.case)
  then have "http_get example_env 2 (BASE_SEARCH_URL (str ''Joe+Roe'')) = Inl (str ''timed out'')"
    by (simp only: one_add_one)
  with b q show ?thesis by blast
qed

text \<open>
  The claim C1 as it was stated fails on a page that has neither the marker nor an entity
  anchor: the row has status \<open>unknown\<close> and a non-empty error message.
\<close>

theorem unknown_row_has_message:
  "query_row example_env 3 1 (str ''Solo'') =
     Inr \<lparr>query_name = str ''Solo'', status = str ''unknown'', match_count = 0,
          search_url = str ''https://www.opensanctions.org/search/?q=Solo'',
          entity_results = [],
          error = str ''Search page returned without parseable entity links.''\<rparr>
   \<and> str ''Search page returned without parseable entity links.'' \<noteq> []"
  by code_simp

section \<open>The classifier\<close>

lemma starts_with_append: "starts_with sub (sub @ rest)"
  by (induction sub) simp_all

lemma starts_with_iff: "starts_with sub s \<longleftrightarrow> (\<exists>rest. s = sub @ rest)"
proof (induction sub s rule: starts_with.induct)
  case (1 s)
  show ?case by simp
next
  case (2 c l)
  show ?case by simp
next
  case (3 c l d s)
  then show ?case by auto
qed

lemma py_in_iff: "py_in sub s \<longleftrightarrow> (\<exists>before rest. s = before @ sub @ rest)"
proof (induction s)
  case Nil
  show ?case by auto
next
  case (Cons c s)
  show ?case
  proof
    assume "py_in sub (c # s)"
    then consider "starts_with sub (c # s)" | "py_in sub s" by auto
    then show "\<exists>before rest. c # s = before @ sub @ rest"
    proof cases
      case 1
      then obtain rest where "c # s = sub @ rest" by (auto simp: starts_with_iff)
      then have "c # s = [] @ sub @ rest" by simp
      then show ?thesis by blast
    next
      case 2
      with Cons.IH obtain before rest where "s = before @ sub @ rest" by blast
      then have "c # s = (c # before) @ sub @ rest" by simp
      then show ?thesis by blast
    qed
  next
    assume "\<exists>before rest. c # s = before @ sub @ rest"
    then obtain before rest where eq: "c # s = before @ sub @ rest" by blast
    show "py_in sub (c # s)"
    proof (cases before)
      case Nil
      with eq have "starts_with sub (c # s)" by (simp add: starts_with_append)
      then show ?thesis by simp
    next
      case (Cons b bs)
      with eq have "s = bs @ sub @ rest" by simp
      with Cons.IH have "py_in sub s" by blast
      then show ?thesis by simp
    qed
  qed
qed

text \<open>
  C4. A fetched page body with the no-results marker anywhere in it gives the row of
  status \<open>no_match\<close> with count 0, no entity text and no error message, for every cap and
  whatever entity anchors stand before or behind the marker: the row does not depend on
  the extractor. (A body is fetched for a name once \<open>quote_plus\<close> has made the query of
  the name.)
\<close>

theorem marker_precedence:
  "quote_plus n = Inr q \<Longrightarrow>
   http_get e i (BASE_SEARCH_URL q) = Inr (before @ NO_MATCH_MARKER @ rest) \<Longrightarrow>
     query_row e maxl i n =
       Inr \<lparr>query_name = n, status = str ''no_match'', match_count = 0,
            search_url = BASE_SEARCH_URL q, entity_results = [], error = []\<rparr>"
proof -
  assume q: "quote_plus n = Inr q"
    and h: "http_get e i (BASE_SEARCH_URL q) = Inr (before @ NO_MATCH_MARKER @ rest)"
  have "py_in NO_MATCH_MARKER (before @ NO_MATCH_MARKER @ rest)"
    unfolding py_in_iff by blast
  with query_row_page [OF q h] show ?thesis by simp
qed

theorem marker_precedence_witness:
  "quote_plus (str ''Jane Doe'') = Inr (str ''Jane+Doe'')
   \<and> http_get example_env 1 (BASE_SEARCH_URL (str ''Jane+Doe''))
     = Inr (str ''<p><a href=\"/entities/Q7\">Old</a> '' @ NO_MATCH_MARKER @ str ''</p>'')
   \<and> extract_entities (charref example_env)
        (str ''<p><a href=\"/entities/Q7\">Old</a> '' @ NO_MATCH_MARKER @ str ''</p>'') 3
       = [(str ''Old'', str ''https://www.opensanctions.org/entities/Q7'')]
   \<and> query_row example_env 3 1 (str ''Jane Doe'') =
       Inr \<lparr>query_name = str ''Jane Doe'', status = str ''no_match'', match_count = 0,
            search_url = BASE_SEARCH_URL (str ''Jane+Doe''), entity_results = [],
            error = []\<rparr>"
proof -
  have q: "quote_plus (str ''Jane Doe'') = Inr (str ''Jane+Doe'')"
    by code_simp
  have h: "http_get example_env 1 (BASE_SEARCH_URL (str ''Jane+Doe''))
     = Inr (str ''<p><a href=\"/entities/Q7\">Old</a> '' @ NO_MATCH_MARKER @ str ''</p>'')"
    by code_simp
  have x: "extract_entities (charref example_env)
        (str ''<p><a href=\"/entities/Q7\">Old</a> '' @ NO_MATCH_MARKER @ str ''</p>'') 3
       = [(str ''Old'', str ''https://www.opensanctions.org/entities/Q7'')]"
    by code_simp
  from marker_precedence [OF q h, of 3] q h x show ?thesis by blast
qed

section \<open>The report writer\<close>

text \<open>
  C7, as the program runs. The writer emits the header row \<open>query_name\<close>, \<open>status\<close>,
  \<open>match_count\<close>, \<open>search_url\<close>, \<open>entity_results\<close>, \<open>error\<close> and then one row per result, in
  the order of the results. The cell \<open>entity_results\<close> of the result of a name is empty
  when the request failed or the page has the marker, and otherwise holds the extracted
  entities joined by \<open>" | "\<close>, an entity with a non-empty title as \<open>title (url)\<close> and an
  entity with an empty title as its URL alone; it is empty when there are no entities.
\<close>

theorem report_rows_and_entity_cell:
  "(write_results e path rows = (None, Some f) \<longrightarrow>
      f = (path,
           [str ''query_name'', str ''status'', str ''match_count'', str ''search_url'',
            str ''entity_results'', str ''error'']
           # map (\<lambda>r. [query_name r, status r, str_int (match_count r), search_url r,
                        entity_results r, error r]) rows))
   \<and> (quote_plus n = Inr q \<longrightarrow>
        (case query_row e maxl i n of
           Inl x \<Rightarrow> False
         | Inr r \<Rightarrow>
             entity_results r =
               (case http_get e i (BASE_SEARCH_URL q) of
                  Inl exc \<Rightarrow> []
                | Inr page \<Rightarrow>
                    if py_in NO_MATCH_MARKER page then []
                    else py_join (str '' | '')
                           (map (\<lambda>(title, url).
                                   if title = [] then url
                                   else title @ str '' ('' @ url @ str '')'')
                              (extract_entities (charref e) page maxl)))))"
proof -
  have w: "write_results e path rows = (None, Some f) \<longrightarrow>
      f = (path,
           [str ''query_name'', str ''status'', str ''match_count'', str ''search_url'',
            str ''entity_results'', str ''error'']
           # map (\<lambda>r. [query_name r, status r, str_int (match_count r), search_url r,
                        entity_results r, error r]) rows)"
    by (auto simp: write_results_def header_def row_cells_def split: if_splits)
  have cell: "entity_cell =
                (\<lambda>(title, url). if title = [] then url else title @ str '' ('' @ url @ str '')'')"
    by (auto simp: entity_cell_def fun_eq_iff)
  have c: "quote_plus n = Inr q \<longrightarrow>
        (case query_row e maxl i n of
           Inl x \<Rightarrow> False
         | Inr r \<Rightarrow>
             entity_results r =
               (case http_get e i (BASE_SEARCH_URL q) of
                  Inl exc \<Rightarrow> []
                | Inr page \<Rightarrow>
                    if py_in NO_MATCH_MARKER page then []
                    else py_join (str '' | '')
                           (map (\<lambda>(title, url).
                                   if title = [] then url
                                   else title @ str '' ('' @ url @ str '')'')
                              (extract_entities (charref e) page maxl))))"
  proof
    assume q: "quote_plus n = Inr q"
    show "case query_row e maxl i n of
           Inl x \<Rightarrow> False
         | Inr r \<Rightarrow>
             entity_results r =
               (case http_get e i (BASE_SEARCH_URL q) of
                  Inl exc \<Rightarrow> []
                | Inr page \<Rightarrow>
                    if py_in NO_MATCH_MARKER page then []
                    else py_join (str '' | '')
                           (map (\<lambda>(title, url).
                                   if title = [] then url
                                   else title @ str '' ('' @ url @ str '')'')
                              (extract_entities (charref e) page maxl)))"
    proof (cases "http_get e i (BASE_SEARCH_URL q)")
      case (Inl exc)
      with query_row_error [OF q Inl, of maxl] show ?thesis by simp
    next
      case (Inr page)
      with query_row_page [OF q Inr, of maxl] show ?thesis
        by (simp add: entity_str_def cell)
    qed
  qed
  from w c show ?thesis by blast
qed

theorem report_rows_and_entity_cell_witness:
  "write_results example_env (str ''out.csv'')
     [\<lparr>query_name = str ''Ann Lee'', status = str ''match'', match_count = 3,
       search_url = str ''https://www.opensanctions.org/search/?q=Ann+Lee'',
       entity_results = str ''Ann Lee (https://www.opensanctions.org/entities/Q1) | Bob (https://www.opensanctions.org/entities/Q1) | https://www.opensanctions.org/entities/Q2'',
       error = []\<rparr>]
     = (None,
        Some (str ''out.csv'',
            [[str ''query_name'', str ''status'', str ''match_count'', str ''search_url'',
              str ''entity_results'', str ''error''],
             [str ''Ann Lee'', str ''match'', str ''3'',
              str ''https://www.opensanctions.org/search/?q=Ann+Lee'',
              str ''Ann Lee (https://www.opensanctions.org/entities/Q1) | Bob (https://www.opensanctions.org/entities/Q1) | https://www.opensanctions.org/entities/Q2'',
              []]]))
   \<and> quote_plus (str ''Ann Lee'') = Inr (str ''Ann+Lee'')
   \<and> query_row example_env 3 1 (str ''Ann Lee'') =
       Inr \<lparr>query_name = str ''Ann Lee'', status = str ''match'', match_count = 3,
            search_url = str ''https://www.opensanctions.org/search/?q=Ann+Lee'',
            entity_results = str ''Ann Lee (https://www.opensanctions.org/entities/Q1) | Bob (https://www.opensanctions.org/entities/Q1) | https://www.opensanctions.org/entities/Q2'',
            error = []\<rparr>"
proof -
  let ?row = "\<lparr>query_name = str ''Ann Lee'', status = str ''match'', match_count = 3,
       search_url = str ''https://www.opensanctions.org/search/?q=Ann+Lee'',
       entity_results = str ''Ann Lee (https://www.opensanctions.org/entities/Q1) | Bob (https://www.opensanctions.org/entities/Q1) | https://www.opensanctions.org/entities/Q2'',
       error = []\<rparr>"
  let ?file = "(str ''out.csv'',
            [[str ''query_name'', str ''status'', str ''match_count'', str ''search_url'',
              str ''entity_results'', str ''error''],
             [str ''Ann Lee'', str ''match'', str ''3'',
              str ''https://www.opensanctions.org/search/?q=Ann+Lee'',
              str ''Ann Lee (https://www.opensanctions.org/entities/Q1) | Bob (https://www.opensanctions.org/entities/Q1) | https://www.opensanctions.org/entities/Q2'',
              []]])"
  have v: "write_results example_env (str ''out.csv'') [?row] = (None, Some ?file)"
    by code_simp
  have q: "quote_plus (str ''Ann Lee'') = Inr (str ''Ann+Lee'')"
    by code_simp
  have r: "query_row example_env 3 1 (str ''Ann Lee'') = Inr ?row"
    by code_simp
  from report_rows_and_entity_cell
         [of example_env "str ''out.csv''" "[?row]" ?file "str ''Ann Lee''" "str ''Ann+Lee''" 3 1]
       v q r
  show ?thesis by blast
qed

text \<open>
  The claim C7 as it was stated fails on an anchor whose text is an image only: its title
  is empty, and its entry in the cell is the URL alone, not \<open>title (url)\<close>.
\<close>

theorem empty_title_entry_is_url:
  "query_row example_env 3 1 (str ''Ann Lee'') =
     Inr \<lparr>query_name = str ''Ann Lee'', status = str ''match'', match_count = 3,
          search_url = str ''https://www.opensanctions.org/search/?q=Ann+Lee'',
          entity_results = str ''Ann Lee (https://www.opensanctions.org/entities/Q1) | Bob (https://www.opensanctions.org/entities/Q1) | https://www.opensanctions.org/entities/Q2'',
          error = []\<rparr>
   \<and> str ''Ann Lee (https://www.opensanctions.org/entities/Q1) | Bob (https://www.opensanctions.org/entities/Q1) | https://www.opensanctions.org/entities/Q2''
     \<noteq> py_join (str '' | '')
         (map title_url_cell (extract_entities (charref example_env) anchors_page 3))"
  by code_simp

section \<open>The run as a whole\<close>





lemma main_returned:
  assumes b: "build_name_list a e = Inr (names, notices)" and n: "names \<noteq> []"
    and c: "returned (main a e) = Inr c"
  shows "\<exists>rows. batch_loop e (max_links a) (sleep a) (length (apply_limit (limit a) names)) 1
                  (apply_limit (limit a) names) [] = Inr rows
           \<and> report (main a e) = Some (output_path a, header # map row_cells rows)"
proof (cases "batch_loop e (max_links a) (sleep a) (length (apply_limit (limit a) names)) 1
                (apply_limit (limit a) names) []")
  case (Inl x)
  with b n c show ?thesis by (simp add: main_def Let_def)
next
  case (Inr rows)
  with b n c have "report (main a e) = Some (output_path a, header # map row_cells rows)"
    by (auto simp: main_def Let_def write_results_def split: if_splits)
  with Inr show ?thesis by blast
qed




lemma batch_loop_names:
  assumes "batch_loop e maxl slp len_names i names [] = Inr rows"
  shows "map query_name rows = names"
proof (rule nth_equalityI)
  from batch_loop_Inr [OF assms] show "length (map query_name rows) = length names"
    by simp
next
  fix k assume "k < length (map query_name rows)"
  with batch_loop_Inr [OF assms]
  have k: "k < length rows" and "query_row e maxl (i + k) (names ! k) = Inr (rows ! k)"
    by simp_all
  then have "query_name (rows ! k) = names ! k" using query_row_name by blast
  with k show "map query_name rows ! k = names ! k" by simp
qed

text \<open>
  C10. The limit cuts the name list only when it is positive: with a limit of 0 or below
  the names are left as they are, with a positive limit the first \<open>limit\<close> names are kept
  (all of them when there are fewer). When \<open>main\<close> returns, the rows of the report are the
  rows of these names.
\<close>

theorem limit_only_when_positive:
  "(lmt \<le> 0 \<longrightarrow> apply_limit lmt names = names)
   \<and> (0 < lmt \<longrightarrow> apply_limit lmt names = take (nat lmt) names
                  \<and> length (apply_limit lmt names) = min (nat lmt) (length names))
   \<and> (build_name_list a e = Inr (names, notices) \<and> names \<noteq> []
        \<and> returned (main a e) = Inr c \<longrightarrow>
        (case batch_loop e (max_links a) (sleep a)
                (length (if 0 < limit a then take (nat (limit a)) names else names)) 1
                (if 0 < limit a then take (nat (limit a)) names else names) [] of
           Inl x \<Rightarrow> False
         | Inr rows \<Rightarrow>
             report (main a e) = Some (output_path a, header # map row_cells rows)
             \<and> map query_name rows
                 = (if 0 < limit a then take (nat (limit a)) names else names)))"
proof -
  have l: "(lmt \<le> 0 \<longrightarrow> apply_limit lmt names = names)
   \<and> (0 < lmt \<longrightarrow> apply_limit lmt names = take (nat lmt) names
                  \<and> length (apply_limit lmt names) = min (nat lmt) (length names))"
    by (simp add: apply_limit_def min.commute)
  let ?names = "if 0 < limit a then take (nat (limit a)) names else names"
  have eq: "apply_limit (limit a) names = ?names"
    by (simp only: apply_limit_def)
  have m: "build_name_list a e = Inr (names, notices) \<and> names \<noteq> []
        \<and> returned (main a e) = Inr c \<longrightarrow>
        (case batch_loop e (max_links a) (sleep a) (length ?names) 1 ?names [] of
           Inl x \<Rightarrow> False
         | Inr rows \<Rightarrow>
             report (main a e) = Some (output_path a, header # map row_cells rows)
             \<and> map query_name rows = ?names)"
  proof (intro impI, elim conjE)
    assume b: "build_name_list a e = Inr (names, notices)" and n: "names \<noteq> []"
      and c: "returned (main a e) = Inr c"
    from main_returned [OF b n c, unfolded eq]
    obtain rows where rows: "batch_loop e (max_links a) (sleep a) (length ?names) 1 ?names []
                               = Inr rows"
      and rep: "report (main a e) = Some (output_path a, header # map row_cells rows)"
      by blast
    from batch_loop_names [OF rows] have "map query_name rows = ?names" .
    with rows rep
    show "case batch_loop e (max_links a) (sleep a) (length ?names) 1 ?names [] of
           Inl x \<Rightarrow> False
         | Inr rows \<Rightarrow>
             report (main a e) = Some (output_path a, header # map row_cells rows)
             \<and> map query_name rows = ?names"
      by simp
  qed
  from l m show ?thesis by blast
qed

theorem limit_only_when_positive_witness:
  "apply_limit 0 [str ''Ann Lee'', str ''Jane Doe'', str ''Joe Roe'']
     = [str ''Ann Lee'', str ''Jane Doe'', str ''Joe Roe'']
   \<and> apply_limit (- 1) [str ''Ann Lee'', str ''Jane Doe'', str ''Joe Roe'']
       = [str ''Ann Lee'', str ''Jane Doe'', str ''Joe Roe'']
   \<and> apply_limit 2 [str ''Ann Lee'', str ''Jane Doe'', str ''Joe Roe'']
       = [str ''Ann Lee'', str ''Jane Doe'']
   \<and> apply_limit 5 [str ''Ann Lee'', str ''Jane Doe'', str ''Joe Roe'']
       = [str ''Ann Lee'', str ''Jane Doe'', str ''Joe Roe'']
   \<and> build_name_list (example_args\<lparr>limit := 2\<rparr>) example_env =
       Inr ([str ''Ann Lee'', str ''Jane Doe'', str ''Joe Roe'', str ''Solo''],
            [str ''Skipped 2 empty row(s) in CSV: 3, 5''])
   \<and> returned (main (example_args\<lparr>limit := 2\<rparr>) example_env) = Inr 0
   \<and> report (main (example_args\<lparr>limit := 2\<rparr>) example_env) =
       Some (str ''out.csv'',
         header # map row_cells
           [\<lparr>query_name = str ''Ann Lee'', status = str ''match'', match_count = 3,
             search_url = str ''https://www.opensanctions.org/search/?q=Ann+Lee'',
             entity_results = str ''Ann Lee (https://www.opensanctions.org/entities/Q1) | Bob (https://www.opensanctions.org/entities/Q1) | https://www.opensanctions.org/entities/Q2'',
             error = []\<rparr>,
            \<lparr>query_name = str ''Jane Doe'', status = str ''no_match'', match_count = 0,
             search_url = str ''https://www.opensanctions.org/search/?q=Jane+Doe'',
             entity_results = [], error = []\<rparr>])"
proof -
  let ?three = "[str ''Ann Lee'', str ''Jane Doe'', str ''Joe Roe'']"
  let ?four = "[str ''Ann Lee'', str ''Jane Doe'', str ''Joe Roe'', str ''Solo'']"
  let ?notices = "[str ''Skipped 2 empty row(s) in CSV: 3, 5'']"
  let ?args = "example_args\<lparr>limit := 2\<rparr>"
  let ?rows = "[\<lparr>query_name = str ''Ann Lee'', status = str ''match'', match_count = 3,
             search_url = str ''https://www.opensanctions.org/search/?q=Ann+Lee'',
             entity_results = str ''Ann Lee (https://www.opensanctions.org/entities/Q1) | Bob (https://www.opensanctions.org/entities/Q1) | https://www.opensanctions.org/entities/Q2'',
             error = []\<rparr>,
            \<lparr>query_name = str ''Jane Doe'', status = str ''no_match'', match_count = 0,
             search_url = str ''https://www.opensanctions.org/search/?q=Jane+Doe'',
             entity_results = [], error = []\<rparr>]"
  have t2: "take (nat 2) ?three = [str ''Ann Lee'', str ''Jane Doe'']" by simp
  have t5: "take (nat 5) ?three = ?three" by simp
  from limit_only_when_positive [of 0 ?three]
  have a: "apply_limit 0 ?three = ?three" by simp
  from limit_only_when_positive [of "- 1" ?three]
  have b: "apply_limit (- 1) ?three = ?three" by simp
  from limit_only_when_positive [of 2 ?three] t2
  have c: "apply_limit 2 ?three = [str ''Ann Lee'', str ''Jane Doe'']" by simp
  from limit_only_when_positive [of 5 ?three] t5
  have d: "apply_limit 5 ?three = ?three" by simp
  have bl: "build_name_list ?args example_env = Inr (?four, ?notices)"
    by code_simp
  have rt: "returned (main ?args example_env) = Inr 0"
    by code_simp
  have lm: "(if 0 < limit ?args then take (nat (limit ?args)) ?four else ?four)
              = [str ''Ann Lee'', str ''Jane Doe'']"
    by (simp add: example_args_def)
  have ar: "max_links ?args = 3" "sleep ?args = Finite (1 / 2)" "output_path ?args = str ''out.csv''"
    by (simp_all add: example_args_def)
  have ln: "length [str ''Ann Lee'', str ''Jane Doe''] = 2" by simp
  have bt: "batch_loop example_env 3 (Finite (1 / 2)) 2 1 [str ''Ann Lee'', str ''Jane Doe''] []
              = Inr ?rows"
    by code_simp
  note t = limit_only_when_positive
    [of 0 ?four ?args example_env ?notices 0, unfolded lm ar ln bt sum.case]
  from t bl rt
  have rp: "report (main ?args example_env) = Some (str ''out.csv'', header # map row_cells ?rows)"
    by blast
  from a b c d bl rt rp show ?thesis by blast
qed

section \<open>Rows of the tabular file without a name\<close>

lemma csv_loop_eq:
  "csv_loop nc fc lc i rows names skipped =
     (names @ filter (\<lambda>n. n \<noteq> []) (map (full_name_of nc fc lc) rows),
      skipped @ map (\<lambda>k. k + i)
                  (filter (\<lambda>k. full_name_of nc fc lc (rows ! k) = []) [0..<length rows]))"
proof (induction rows arbitrary: i names skipped)
  case Nil
  show ?case by simp
next
  case (Cons row rows)
  show ?case
    by (simp add: Cons.IH Let_def upt_0_Suc_shift filter_map comp_def del: upt_Suc)
qed

lemma load_names_from_csv_rows:
  "csv_records e path = Some records \<Longrightarrow>
     load_names_from_csv e path nc fc lc =
       Inr (filter (\<lambda>n. n \<noteq> []) (map (full_name_of nc fc lc) (dict_reader records)),
            map (\<lambda>k. k + 2)
              (filter (\<lambda>k. full_name_of nc fc lc (dict_reader records ! k) = [])
                 [0..<length (dict_reader records)]))"
  by (simp add: load_names_from_csv_def csv_loop_eq)

lemma load_names_from_csv_no_empty_line:
  assumes r: "csv_records e path = Some (fieldnames # rest)" and ne: "[] \<notin> set rest"
  shows "load_names_from_csv e path nc fc lc =
       Inr (filter (\<lambda>n. n \<noteq> [])
              (map (\<lambda>record. full_name_of nc fc lc (to_dict fieldnames record)) rest),
            map (\<lambda>k. k + 2)
              (filter (\<lambda>k. full_name_of nc fc lc
                              (to_dict fieldnames (file_row (fieldnames # rest) (k + 2))) = [])
                 [0..<length rest]))"
proof -
  from ne have f: "filter (\<lambda>record. record \<noteq> []) rest = rest"
    by (induction rest) auto
  have d: "dict_reader (fieldnames # rest) = map (to_dict fieldnames) rest"
    by (simp add: dict_reader_def f)
  have "filter (\<lambda>k. full_name_of nc fc lc (map (to_dict fieldnames) rest ! k) = [])
          [0..<length rest]
        = filter (\<lambda>k. full_name_of nc fc lc
                         (to_dict fieldnames (file_row (fieldnames # rest) (k + 2))) = [])
            [0..<length rest]"
    by (intro filter_cong) (simp_all add: file_row_def)
  with load_names_from_csv_rows [OF r, of nc fc lc] show ?thesis
    by (simp add: d comp_def)
qed

text \<open>
  C9. The number recorded for a row without a name is not always its row number in the
  file. \<open>csv.DictReader\<close> passes over empty lines, and the loop counts the rows it is
  given, from 2: in a file with the header on row 1, an empty line on row 2, a row with a
  name on row 3 and a row of blank cells on row 4, the number recorded is 3, the row
  number of the row with the name; row 4, whose name is blank, is not in the list of
  skipped rows, and neither is row 2.
\<close>

theorem csv_row_number_after_empty_line:
  "csv_records example_env (str ''gap.csv'') = Some gap_records
   \<and> load_names_from_csv example_env (str ''gap.csv'') [] (str ''Vorname'') (str ''Nachname'')
       = Inr ([str ''Ann Lee''], [3])
   \<and> file_row gap_records 2 = []
   \<and> file_row gap_records 3 = [str ''Ann'', str ''Lee'']
   \<and> file_row gap_records 4 = [str '' '', []]
   \<and> full_name_of [] (str ''Vorname'') (str ''Nachname'')
        (to_dict (file_row gap_records 1) (file_row gap_records 3)) = str ''Ann Lee''
   \<and> full_name_of [] (str ''Vorname'') (str ''Nachname'')
        (to_dict (file_row gap_records 1) (file_row gap_records 4)) = []"
  by code_simp

end
